theory Spec2Isabelle
  imports Complex_Main "HOL-Library.Sublist" "HOL-Library.Multiset"
begin

section \<open>JavaScript numbers and values\<close>

text \<open>
  Scores, priorities, strengths and source counts are JavaScript numbers. The code only
  compares them (\<^verbatim>\<open>>=\<close>, \<^verbatim>\<open><\<close>, \<^verbatim>\<open>Math.min\<close>, \<^verbatim>\<open>Math.max\<close>, the sign of a
  difference in a sort), and every finite JavaScript number is a rational number, so the
  type \<open>number\<close> is \<open>rat\<close>. An infinite number (the JSON text \<^verbatim>\<open>1e999\<close>) is not in
  the model: in a comparison with a constant and in the clamping done here it behaves as
  every finite number beyond the constants does.
\<close>

type_synonym number = rat

text \<open>
  A number that the code has computed may be \<^verbatim>\<open>NaN\<close>: \<open>jsnumber\<close> is the result of the
  runtime's \<^verbatim>\<open>ToNumber\<close>.
\<close>

datatype jsnumber = Num number | NaN

text \<open>
  The answers of the external capability and the result messages come out of
  \<^verbatim>\<open>JSON.parse\<close> untyped, so a field of a parsed object is any JSON value, or absent
  (\<^verbatim>\<open>undefined\<close>). The number that a string, an array or an object converts to is
  computed by the runtime, not by this program: the model takes it with the value.
  \<open>JString s r\<close> is the string \<open>s\<close>, which the runtime reads as the number \<open>r\<close>
  (\<^verbatim>\<open>"8"\<close> as 8, \<^verbatim>\<open>"high"\<close> as \<^verbatim>\<open>NaN\<close>); \<open>JObject r\<close> is an array or an object that
  converts to \<open>r\<close> (\<^verbatim>\<open>[8]\<close> to 8, \<^verbatim>\<open>[]\<close> to 0, \<^verbatim>\<open>{}\<close> to \<^verbatim>\<open>NaN\<close>): the program
  never reads inside one, and the model keeps nothing else of it. The empty string reads
  as 0 whatever comes with it.
\<close>

datatype jsvalue =
    JUndefined
  | JNull
  | JBool bool
  | JNumber number
  | JString string jsnumber
  | JObject jsnumber

text \<open>Truthiness, as \<^verbatim>\<open>||\<close> tests it.\<close>

fun truthy :: "jsvalue \<Rightarrow> bool" where
  "truthy JUndefined = False"
| "truthy JNull = False"
| "truthy (JBool b) = b"
| "truthy (JNumber n) = (n \<noteq> 0)"
| "truthy (JString s r) = (s \<noteq> [])"
| "truthy (JObject r) = True"

text \<open>\<^verbatim>\<open>ToNumber\<close>, which \<^verbatim>\<open>>=\<close>, \<^verbatim>\<open><\<close>, \<^verbatim>\<open>Math.min\<close> and \<^verbatim>\<open>Math.max\<close> apply first.\<close>

fun toNumber :: "jsvalue \<Rightarrow> jsnumber" where
  "toNumber JUndefined = NaN"
| "toNumber JNull = Num 0"
| "toNumber (JBool b) = Num (if b then 1 else 0)"
| "toNumber (JNumber n) = Num n"
| "toNumber (JString s r) = (if s = [] then Num 0 else r)"
| "toNumber (JObject r) = r"

text \<open>\<^verbatim>\<open>x >= k\<close> and \<^verbatim>\<open>x < k\<close> for a constant \<open>k\<close>: a comparison with \<^verbatim>\<open>NaN\<close> is false.\<close>

definition geJS :: "jsnumber \<Rightarrow> number \<Rightarrow> bool" where
  "geJS x k = (case x of Num n \<Rightarrow> k \<le> n | NaN \<Rightarrow> False)"

definition ltJS :: "jsnumber \<Rightarrow> number \<Rightarrow> bool" where
  "ltJS x k = (case x of Num n \<Rightarrow> n < k | NaN \<Rightarrow> False)"

text \<open>
  \<^verbatim>\<open>x || y\<close>: the value itself when it is truthy. \<open>orDefault\<close> is \<^verbatim>\<open>x || d\<close> for a
  constant number \<open>d\<close>.
\<close>

definition orElse :: "jsvalue \<Rightarrow> jsvalue \<Rightarrow> jsvalue" where
  "orElse x y = (if truthy x then x else y)"

definition orDefault :: "jsvalue \<Rightarrow> number \<Rightarrow> jsvalue" where
  "orDefault x d = (if truthy x then x else JNumber d)"

text \<open>
  \<^verbatim>\<open>Math.max(a, x)\<close> and \<^verbatim>\<open>Math.min(a, x)\<close> for a constant \<open>a\<close>: \<^verbatim>\<open>NaN\<close> when \<open>x\<close> is.
\<close>

definition mathMax :: "number \<Rightarrow> jsnumber \<Rightarrow> jsnumber" where
  "mathMax a x = (case x of Num n \<Rightarrow> Num (max a n) | NaN \<Rightarrow> NaN)"

definition mathMin :: "number \<Rightarrow> jsnumber \<Rightarrow> jsnumber" where
  "mathMin a x = (case x of Num n \<Rightarrow> Num (min a n) | NaN \<Rightarrow> NaN)"

section \<open>Discovery store (models/Discovery.ts)\<close>

text \<open>
  Timestamps and the identifiers drawn from \<^verbatim>\<open>uuidv4()\<close> and \<^verbatim>\<open>Date.now()\<close> are
  parameters of the operations that draw them. The novelty score of a discovery is what
  the validator has computed, a \<open>jsnumber\<close>.
\<close>

text \<open>
  A JavaScript \<^verbatim>\<open>Map\<close> keeps its keys in insertion order and the store is listed in
  that order (\<^verbatim>\<open>Array.from(map.values())\<close>), so a \<^verbatim>\<open>Map\<close> is an association list:
  \<open>map_of\<close> is \<^verbatim>\<open>get\<close>, and \<open>mapSet\<close> is \<^verbatim>\<open>set\<close> (an existing key keeps its place, a
  new key goes to the end).
\<close>

fun mapSet :: "'k \<Rightarrow> 'v \<Rightarrow> ('k \<times> 'v) list \<Rightarrow> ('k \<times> 'v) list" where
  "mapSet k v [] = [(k, v)]"
| "mapSet k v ((k', v') # rest) =
     (if k' = k then (k, v) # rest else (k', v') # mapSet k v rest)"

record source =
  url :: string
  title :: string
  keyInsight :: string
  credibility :: number

datatype discovery_status = Pending | Validated | Rejected

record discovery =
  d_id :: string
  finding :: string
  noveltyScore :: jsnumber
  noveltyExplanation :: string
  sourcesSynthesized :: "source list"
  discoveredBy :: "string list"
  buildsOn :: "string list"
  threadId :: string
  researchNext :: "string list"
  timestamp :: nat
  d_status :: discovery_status

text \<open>
  A thread holds references to the Discovery objects of the store, not copies; the
  reference is the discovery's id, the key under which the one object is stored.
\<close>

record discoveryThread =
  th_id :: string
  th_topic :: string
  th_discoveries :: "string list"
  createdAt :: nat
  lastUpdated :: nat
  depth :: nat

record discoveryManager =
  discoveries :: "(string \<times> discovery) list"
  threads :: "(string \<times> discoveryThread) list"

definition newDiscoveryManager :: discoveryManager where
  "newDiscoveryManager = \<lparr>discoveries = [], threads = []\<rparr>"

definition createNewThread :: "discoveryManager \<Rightarrow> string \<Rightarrow> string \<Rightarrow> nat \<Rightarrow> discoveryManager" where
  "createNewThread m topic freshId now =
     m\<lparr>threads := mapSet freshId
        \<lparr>th_id = freshId, th_topic = topic, th_discoveries = [], createdAt = now,
         lastUpdated = now, depth = 0\<rparr> (threads m)\<rparr>"

definition addDiscoveryToThread :: "discoveryManager \<Rightarrow> discovery \<Rightarrow> nat \<Rightarrow> discoveryManager" where
  "addDiscoveryToThread m d now =
     (case map_of (threads m) (threadId d) of
        None \<Rightarrow> m
      | Some thread \<Rightarrow>
          m\<lparr>threads := mapSet (threadId d)
             (thread\<lparr>th_discoveries := th_discoveries thread @ [d_id d],
                     lastUpdated := now,
                     depth := max (depth thread) (length (buildsOn d) + 1)\<rparr>) (threads m)\<rparr>)"

text \<open>
  \<^verbatim>\<open>threadId || this.createNewThread(finding).id\<close>: a missing or empty thread id opens a
  new thread. \<open>freshId\<close> and \<open>freshThreadId\<close> are the two uuids, \<open>now\<close> the time of the
  call.
\<close>

definition createDiscovery ::
  "discoveryManager \<Rightarrow> string \<Rightarrow> string \<Rightarrow> source list \<Rightarrow> string list \<Rightarrow> string list \<Rightarrow>
   string option \<Rightarrow> string \<Rightarrow> string \<Rightarrow> nat \<Rightarrow> discoveryManager \<times> discovery" where
  "createDiscovery m fnd expl srcs by bOn threadIdOpt freshId freshThreadId now =
     (let (m1, tid) =
            (case threadIdOpt of
               None \<Rightarrow> (createNewThread m fnd freshThreadId now, freshThreadId)
             | Some t \<Rightarrow> if t = [] then (createNewThread m fnd freshThreadId now, freshThreadId)
                         else (m, t));
          d = \<lparr>d_id = freshId, finding = fnd, noveltyScore = Num 0, noveltyExplanation = expl,
               sourcesSynthesized = srcs, discoveredBy = by, buildsOn = bOn, threadId = tid,
               researchNext = [], timestamp = now, d_status = Pending\<rparr>;
          m2 = m1\<lparr>discoveries := mapSet freshId d (discoveries m1)\<rparr>
      in (addDiscoveryToThread m2 d now, d))"

text \<open>
  \<^verbatim>\<open>updateDiscoveryStatus\<close> returns \<^verbatim>\<open>void\<close> and has no \<^verbatim>\<open>throw\<close>: its whole effect
  is the new store. The score is optional (\<^verbatim>\<open>noveltyScore?: number\<close>).
\<close>

definition updateDiscoveryStatus ::
  "discoveryManager \<Rightarrow> string \<Rightarrow> discovery_status \<Rightarrow> jsnumber option \<Rightarrow> discoveryManager" where
  "updateDiscoveryStatus m discoveryId status score =
     (case map_of (discoveries m) discoveryId of
        None \<Rightarrow> m
      | Some d \<Rightarrow>
          m\<lparr>discoveries := mapSet discoveryId
             (d\<lparr>d_status := status,
                noveltyScore := (case score of None \<Rightarrow> noveltyScore d | Some n \<Rightarrow> n)\<rparr>)
             (discoveries m)\<rparr>)"

definition getDiscovery :: "discoveryManager \<Rightarrow> string \<Rightarrow> discovery option" where
  "getDiscovery m i = map_of (discoveries m) i"



section \<open>Novelty Validator (NoveltyValidatorAgent)\<close>

datatype recommendation = Accept | Reject | NeedsReview

record noveltyAssessment =
  a_discoveryId :: string
  a_noveltyScore :: jsnumber
  validationReason :: jsvalue
  comparisonInsights :: jsvalue
  a_recommendation :: recommendation

text \<open>
  The external reasoning capability is outside the program. What \<^verbatim>\<open>assessNovelty\<close>
  sees of it is one of: the call throws (timeout, transport), the text does not parse as
  an object (\<^verbatim>\<open>JSON.parse\<close> throws, or yields \<^verbatim>\<open>null\<close>, whose field access
  throws), or a parsed object. The score, the reason and the
  insights of the parsed object are any values (all \<open>JUndefined\<close> when the text parses
  to a number, a string, a boolean or an array, which have no such fields). The
  recommendation is only compared with \<^verbatim>\<open>=== 'accept'\<close>: \<open>Some s\<close> is the string
  \<open>s\<close>, and \<open>None\<close> a field that is absent or not a string.
\<close>

record validation =
  v_noveltyScore :: jsvalue
  v_validationReason :: jsvalue
  v_comparisonInsights :: jsvalue
  v_recommendation :: "string option"

datatype 'a agent_response = CallFailed | ParseFailed | Parsed 'a

record noveltyValidator =
  nv_manager :: discoveryManager
  knowledgeBase :: "(string \<times> string list) list"
  processedCount :: nat

text \<open>
  \<^verbatim>\<open>assessNovelty\<close>: the prompt it builds from the knowledge base only goes out to the
  external capability, whose answer is the parameter \<open>resp\<close>.
\<close>

definition assessNovelty :: "discovery \<Rightarrow> validation agent_response \<Rightarrow> noveltyAssessment" where
  "assessNovelty d resp =
     (case resp of
        Parsed v \<Rightarrow>
          \<lparr>a_discoveryId = d_id d,
           a_noveltyScore = mathMin 10 (mathMax 1 (toNumber (orDefault (v_noveltyScore v) 5))),
           validationReason =
             orElse (v_validationReason v) (JString ''No detailed reasoning provided'' NaN),
           comparisonInsights = orElse (v_comparisonInsights v) (JObject (Num 0)),
           a_recommendation =
             (if v_recommendation v = Some ''accept'' \<and> geJS (toNumber (v_noveltyScore v)) 7
              then Accept else Reject)\<rparr>
      | _ \<Rightarrow>
          \<lparr>a_discoveryId = d_id d,
           a_noveltyScore = Num 3,
           validationReason = JString ''Validation failed due to processing error'' NaN,
           comparisonInsights = JObject (Num 0),
           a_recommendation = Reject\<rparr>)"

subsection \<open>Topic tags\<close>

text \<open>
  The patterns carry the flag \<^verbatim>\<open>i\<close> and test for a substring. Without the flag
  \<^verbatim>\<open>u\<close> only ASCII letters fold, which on the bytes of the text is \<open>toLowerASCII\<close>.
  \<open>lowerASCII\<close> is also what \<^verbatim>\<open>toLowerCase()\<close> does to the pattern sources, which are
  ASCII texts.
\<close>

definition toLowerASCII :: "char \<Rightarrow> char" where
  "toLowerASCII c =
     (let n = (of_char c :: nat) in if 65 \<le> n \<and> n \<le> 90 then char_of (n + 32) else c)"

definition lowerASCII :: "string \<Rightarrow> string" where
  "lowerASCII s = map toLowerASCII s"

fun includesStr :: "string \<Rightarrow> string \<Rightarrow> bool" where
  "includesStr [] k = (k = [])"
| "includesStr (c # cs) k = (prefix k (c # cs) \<or> includesStr cs k)"

text \<open>
  A pattern is its \<^verbatim>\<open>source\<close> text and the alternatives it matches as a substring
  (\<^verbatim>\<open>/materials?/\<close> matches \<^verbatim>\<open>materials\<close> or \<^verbatim>\<open>material\<close>).
\<close>

record domainPattern =
  p_source :: string
  p_alternatives :: "string list"

definition domainPatterns :: "domainPattern list" where
  "domainPatterns =
    [\<lparr>p_source = ''quantum'', p_alternatives = [''quantum'']\<rparr>,
     \<lparr>p_source = ''AI|artificial intelligence'',
      p_alternatives = [''AI'', ''artificial intelligence'']\<rparr>,
     \<lparr>p_source = ''blockchain'', p_alternatives = [''blockchain'']\<rparr>,
     \<lparr>p_source = ''biotech'', p_alternatives = [''biotech'']\<rparr>,
     \<lparr>p_source = ''space'', p_alternatives = [''space'']\<rparr>,
     \<lparr>p_source = ''materials?'', p_alternatives = [''materials'', ''material'']\<rparr>,
     \<lparr>p_source = ''energy'', p_alternatives = [''energy'']\<rparr>,
     \<lparr>p_source = ''computing'', p_alternatives = [''computing'']\<rparr>,
     \<lparr>p_source = ''neural'', p_alternatives = [''neural'']\<rparr>,
     \<lparr>p_source = ''genetic'', p_alternatives = [''genetic'']\<rparr>,
     \<lparr>p_source = ''robot'', p_alternatives = [''robot'']\<rparr>,
     \<lparr>p_source = ''autonomous'', p_alternatives = [''autonomous'']\<rparr>,
     \<lparr>p_source = ''machine learning'', p_alternatives = [''machine learning'']\<rparr>,
     \<lparr>p_source = ''cryptocurrency'', p_alternatives = [''cryptocurrency'']\<rparr>,
     \<lparr>p_source = ''climate'', p_alternatives = [''climate'']\<rparr>]"

definition patternTest :: "domainPattern \<Rightarrow> string \<Rightarrow> bool" where
  "patternTest p text =
     list_ex (\<lambda>alt. includesStr (lowerASCII text) (lowerASCII alt)) (p_alternatives p)"

text \<open>
  \<^verbatim>\<open>pattern.source.replace(/[\/\\i]/g, '').toLowerCase()\<close>: the tag is the source
  text without its slashes, backslashes and letters \<^verbatim>\<open>i\<close>, in lower case.
\<close>

definition patternTag :: "domainPattern \<Rightarrow> string" where
  "patternTag p =
     lowerASCII (filter (\<lambda>c. c \<noteq> CHR ''/'' \<and> c \<noteq> CHR 0x5C \<and> c \<noteq> CHR ''i'') (p_source p))"

definition extractTopics :: "string \<Rightarrow> string list" where
  "extractTopics fnd =
     (let topics = map patternTag (filter (\<lambda>p. patternTest p fnd) domainPatterns)
      in if length topics > 0 then topics else [''general''])"

subsection \<open>Knowledge base\<close>

definition kbGet :: "(string \<times> string list) list \<Rightarrow> string \<Rightarrow> string list" where
  "kbGet kb topic = (case map_of kb topic of None \<Rightarrow> [] | Some xs \<Rightarrow> xs)"

text \<open>One turn of the loop of \<^verbatim>\<open>updateKnowledgeBase\<close>, for one topic.\<close>

definition addInsight :: "string \<Rightarrow> string \<Rightarrow> (string \<times> string list) list \<Rightarrow> (string \<times> string list) list" where
  "addInsight fnd topic kb =
     (let kb1 = (if map_of kb topic = None then mapSet topic [] kb else kb);
          insights = kbGet kb1 topic
      in if fnd \<in> set insights then kb1
         else (let pushed = insights @ [fnd]
               in mapSet topic (if length pushed > 10 then tl pushed else pushed) kb1))"

definition updateKnowledgeBase :: "(string \<times> string list) list \<Rightarrow> discovery \<Rightarrow> (string \<times> string list) list" where
  "updateKnowledgeBase kb d = fold (addInsight (finding d)) (extractTopics (finding d)) kb"

subsection \<open>Validation of one discovery\<close>

text \<open>
  \<^verbatim>\<open>process\<close>: \<^verbatim>\<open>assessNovelty\<close> catches its own failures, and nothing else in the
  \<^verbatim>\<open>try\<close> block throws, so the outer \<^verbatim>\<open>catch\<close> (which also rejects with score 3) is
  not a branch of its own here. The returned message wraps the assessment.
\<close>

definition process ::
  "noveltyValidator \<Rightarrow> discovery \<Rightarrow> validation agent_response \<Rightarrow> noveltyValidator \<times> noveltyAssessment" where
  "process s d resp =
     (let s1 = s\<lparr>processedCount := processedCount s + 1\<rparr>;
          assessment = assessNovelty d resp;
          finalStatus = (if a_recommendation assessment = Accept then Validated else Rejected);
          s2 = s1\<lparr>nv_manager := updateDiscoveryStatus (nv_manager s1) (d_id d) finalStatus
                                   (Some (a_noveltyScore assessment))\<rparr>;
          s3 = (if a_recommendation assessment = Accept
                then s2\<lparr>knowledgeBase := updateKnowledgeBase (knowledgeBase s2) d\<rparr>
                else s2)
      in (s3, assessment))"

definition newNoveltyValidator :: "discoveryManager \<Rightarrow> noveltyValidator" where
  "newNoveltyValidator m = \<lparr>nv_manager = m, knowledgeBase = [], processedCount = 0\<rparr>"

subsection \<open>Histories of the store\<close>

text \<open>
  The store and the validator change in two ways only: a specialist creates a
  discovery, and the controller hands a discovery it has looked up by id
  (\<^verbatim>\<open>getDiscovery\<close>) to the validator's \<^verbatim>\<open>process\<close>. A history is a list of such
  steps, run from the empty store.
\<close>

datatype store_op =
    CreateOp string string "source list" "string list" "string list" "string option" string string nat
  | ValidateOp string "validation agent_response"

fun applyOp :: "noveltyValidator \<Rightarrow> store_op \<Rightarrow> noveltyValidator" where
  "applyOp s (CreateOp fnd expl srcs by bOn tid freshId freshThreadId now) =
     s\<lparr>nv_manager := fst (createDiscovery (nv_manager s) fnd expl srcs by bOn tid
                              freshId freshThreadId now)\<rparr>"
| "applyOp s (ValidateOp i resp) =
     (case getDiscovery (nv_manager s) i of
        None \<Rightarrow> s
      | Some d \<Rightarrow> fst (process s d resp))"

fun runOps :: "noveltyValidator \<Rightarrow> store_op list \<Rightarrow> noveltyValidator" where
  "runOps s [] = s"
| "runOps s (op # ops) = runOps (applyOp s op) ops"

text \<open>Every validated discovery of the store has a score between 7 and 10.\<close>

definition scoreWithin :: "jsnumber \<Rightarrow> number \<Rightarrow> number \<Rightarrow> bool" where
  "scoreWithin x lo hi = (case x of Num n \<Rightarrow> lo \<le> n \<and> n \<le> hi | NaN \<Rightarrow> False)"

definition validatedScoresOk :: "discoveryManager \<Rightarrow> bool" where
  "validatedScoresOk m =
     list_all (\<lambda>(i, d). d_status d = Validated \<longrightarrow> scoreWithin (noveltyScore d) 7 10)
       (discoveries m)"

section \<open>Research Director: the topic queue (models/ResearchDirectorAgent.ts)\<close>

datatype topic_status = TopicPending | TopicActive | TopicCompleted

record researchTopic =
  t_id :: string
  topic :: string
  priority :: number
  assignedTo :: "string option"
  t_status :: topic_status
  parentDiscoveryId :: "string option"

text \<open>
  A topic is the record that the interface \<^verbatim>\<open>ResearchTopic\<close> declares, its priority a
  number. The topics that the external capability proposes get
  \<^verbatim>\<open>topic.priority || 7\<close> (or \<^verbatim>\<open>|| 8\<close>) from its answer; an answer whose priority is
  not a number is outside these records (with it the comparator of the sort below gives
  \<^verbatim>\<open>NaN\<close>, and the order of the result is left to the runtime).
\<close>

text \<open>
  \<^verbatim>\<open>updateResearchQueue\<close>: push the new topics, drop the completed ones, sort with the
  comparator \<^verbatim>\<open>b.priority - a.priority\<close> (a stable sort), keep the first 20.
\<close>

definition updateResearchQueue :: "researchTopic list \<Rightarrow> researchTopic list \<Rightarrow> researchTopic list" where
  "updateResearchQueue researchQueue newTopics =
     (let pushed = researchQueue @ newTopics;
          sorted_queue = sort_key (\<lambda>t. - priority t)
                           (filter (\<lambda>t. t_status t \<noteq> TopicCompleted) pushed)
      in if length sorted_queue > 20 then take 20 sorted_queue else sorted_queue)"

text \<open>
  \<^verbatim>\<open>selectNextResearchTopic\<close>: \<^verbatim>\<open>filter\<close> builds a new array of the same objects, so
  \<^verbatim>\<open>selectedTopic.status = 'active'\<close> writes to the first pending entry of the queue
  itself; \<open>markFirstPending\<close> is that write. The result is the selected object (as it is
  after the write) or \<open>None\<close> for \<^verbatim>\<open>null\<close>, with the queue.
\<close>

fun markFirstPending :: "researchTopic list \<Rightarrow> researchTopic list" where
  "markFirstPending [] = []"
| "markFirstPending (t # ts) =
     (if t_status t = TopicPending then t\<lparr>t_status := TopicActive\<rparr> # ts
      else t # markFirstPending ts)"

definition selectNextResearchTopic :: "researchTopic list \<Rightarrow> researchTopic option \<times> researchTopic list" where
  "selectNextResearchTopic researchQueue =
     (let availableTopics = filter (\<lambda>t. t_status t = TopicPending) researchQueue
      in if length availableTopics = 0 then (None, researchQueue)
         else (Some ((hd availableTopics)\<lparr>t_status := TopicActive\<rparr>),
               markFirstPending researchQueue))"

text \<open>
  What \<^verbatim>\<open>process\<close> of the Research Director does to the queue: it pushes the new topics
  with \<^verbatim>\<open>updateResearchQueue\<close> and then selects with \<^verbatim>\<open>selectNextResearchTopic\<close>,
  which is private and has no other caller. The new topics come from the external
  capability and are the parameter \<open>newTopics\<close>.
\<close>

definition directorProcess ::
  "researchTopic list \<Rightarrow> researchTopic list \<Rightarrow> researchTopic option \<times> researchTopic list" where
  "directorProcess researchQueue newTopics =
     selectNextResearchTopic (updateResearchQueue researchQueue newTopics)"

text \<open>
  \<^verbatim>\<open>processVoiceCommand\<close>: \<open>topicMatch\<close> is the result of
  \<^verbatim>\<open>command.match(/research\s+(.+)/i)\<close>, the captured topic text or \<open>None\<close> when the
  command does not match; \<open>now\<close> is the text of \<^verbatim>\<open>Date.now()\<close>.
\<close>

definition processVoiceCommand :: "researchTopic list \<Rightarrow> string option \<Rightarrow> string \<Rightarrow> researchTopic list" where
  "processVoiceCommand researchQueue topicMatch now =
     (case topicMatch of
        None \<Rightarrow> researchQueue
      | Some userTopic \<Rightarrow>
          \<lparr>t_id = ''voice-'' @ now, topic = userTopic, priority = 10, assignedTo = None,
           t_status = TopicPending, parentDiscoveryId = None\<rparr> # researchQueue)"

definition addFallbackTopics :: "researchTopic list \<Rightarrow> researchTopic list" where
  "addFallbackTopics researchQueue = researchQueue @
     [\<lparr>t_id = ''fallback-0'', topic = ''Quantum computing applications in biological systems'',
       priority = 9, assignedTo = None, t_status = TopicPending, parentDiscoveryId = None\<rparr>,
      \<lparr>t_id = ''fallback-1'', topic = ''AI-driven materials discovery for sustainable technology'',
       priority = 8, assignedTo = None, t_status = TopicPending, parentDiscoveryId = None\<rparr>,
      \<lparr>t_id = ''fallback-2'', topic = ''Intersection of blockchain and space technology'',
       priority = 7, assignedTo = None, t_status = TopicPending, parentDiscoveryId = None\<rparr>,
      \<lparr>t_id = ''fallback-3'', topic = ''Novel applications of CRISPR beyond gene editing'',
       priority = 8, assignedTo = None, t_status = TopicPending, parentDiscoveryId = None\<rparr>,
      \<lparr>t_id = ''fallback-4'', topic = ''Emergent properties in neural network architectures'',
       priority = 7, assignedTo = None, t_status = TopicPending, parentDiscoveryId = None\<rparr>]"

text \<open>A queue in descending order of priority.\<close>

definition sortedDesc :: "researchTopic list \<Rightarrow> bool" where
  "sortedDesc q = sorted_wrt (\<lambda>a b. priority b \<le> priority a) q"

section \<open>Agent controller: routing, handoff, start and stop (AgentController)\<close>

record specialist =
  sp_name :: string
  specialization :: string

text \<open>
  The constructor builds the roster once, from \<^verbatim>\<open>['Technology', 'Science', 'Applications']\<close>;
  the field is private and never reassigned. Its members are three objects with three
  names, so that two of them are the same object (\<^verbatim>\<open>===\<close>, \<^verbatim>\<open>includes\<close>) exactly when
  they are equal as records.
\<close>

definition newSpecialist :: "string \<Rightarrow> specialist" where
  "newSpecialist spec =
     \<lparr>sp_name = ''Discovery Specialist ('' @ spec @ '')'', specialization = spec\<rparr>"

definition initialSpecialists :: "specialist list" where
  "initialSpecialists = map newSpecialist [''Technology'', ''Science'', ''Applications'']"

definition technologySpecialist :: specialist where
  "technologySpecialist = newSpecialist ''Technology''"

definition scienceSpecialist :: specialist where
  "scienceSpecialist = newSpecialist ''Science''"

definition applicationsSpecialist :: specialist where
  "applicationsSpecialist = newSpecialist ''Applications''"

text \<open>\<^verbatim>\<open>this.config.specialization || 'General'\<close>\<close>

definition getSpecialization :: "specialist \<Rightarrow> string" where
  "getSpecialization s = (if specialization s = [] then ''General'' else specialization s)"

definition MAX_PARALLEL_RESEARCH :: nat where
  "MAX_PARALLEL_RESEARCH = 2"

definition mentionsTechnology :: "string \<Rightarrow> bool" where
  "mentionsTechnology topicLower =
     (includesStr topicLower ''tech'' \<or> includesStr topicLower ''ai''
      \<or> includesStr topicLower ''software'')"

definition mentionsScience :: "string \<Rightarrow> bool" where
  "mentionsScience topicLower =
     (includesStr topicLower ''science'' \<or> includesStr topicLower ''research''
      \<or> includesStr topicLower ''study'')"

definition mentionsApplications :: "string \<Rightarrow> bool" where
  "mentionsApplications topicLower =
     (includesStr topicLower ''application'' \<or> includesStr topicLower ''practical''
      \<or> includesStr topicLower ''use'')"

text \<open>
  \<^verbatim>\<open>selectOptimalSpecialists\<close>. \<open>topicLower\<close> is the result of
  \<^verbatim>\<open>topic.topic.toLowerCase()\<close>, the topic text as the runtime has lowered it (the
  lowering is the runtime's, over all of Unicode, and the function reads nothing else of
  the topic). A text outside ASCII is the list of its UTF-8 bytes: the keywords are ASCII,
  so that \<^verbatim>\<open>includes\<close> finds them in the bytes exactly where it finds them in the text.
  An entry of \<^verbatim>\<open>selected\<close> is the result of \<^verbatim>\<open>find(...)!\<close>, which is
  \<^verbatim>\<open>undefined\<close> when the roster has no such specialist: \<open>None\<close> is that value.
\<close>

definition findSpecialist :: "specialist list \<Rightarrow> string \<Rightarrow> specialist option" where
  "findSpecialist roster spec = find (\<lambda>s. getSpecialization s = spec) roster"

definition selectOptimalSpecialists :: "specialist list \<Rightarrow> string \<Rightarrow> specialist option list" where
  "selectOptimalSpecialists roster topicLower =
     (let selected1 = (if mentionsTechnology topicLower
                       then [findSpecialist roster ''Technology''] else []);
          selected2 = (if mentionsScience topicLower
                       then selected1 @ [findSpecialist roster ''Science''] else selected1);
          selected3 = (if mentionsApplications topicLower
                       then selected2 @ [findSpecialist roster ''Applications''] else selected2);
          selected4 = (if length selected3 = 0
                       then selected3 @ map Some (take 2 roster) else selected3);
          selected5 = (if length selected4 = 1
                       then (let remaining = filter (\<lambda>s. Some s \<notin> set selected4) roster
                             in if length remaining > 0 then selected4 @ [Some (hd remaining)]
                                else selected4)
                       else selected4)
      in take MAX_PARALLEL_RESEARCH selected5)"





subsection \<open>Start and stop\<close>

text \<open>
  Of the controller, \<^verbatim>\<open>start\<close> and \<^verbatim>\<open>stop\<close> touch the running flag, the cycle counter,
  the timer handle and the time of the last activity; the agents and the message queue are
  the rest of the record. \<open>timer\<close> is the handle \<^verbatim>\<open>setInterval\<close> returns. What the two
  functions print is their second result.
\<close>

record agentController =
  isRunning :: bool
  currentCycle :: nat
  cycleInterval :: "nat option"
  lastActivity :: nat

datatype console_line =
  AlreadyRunning | StartingEngine | SystemRunning | AlreadyStopped | StoppingSystem | SystemStopped

text \<open>
  \<^verbatim>\<open>runDiscoveryCycle\<close> returns at once when the system is not running; otherwise it
  counts the cycle and runs the pipeline inside \<^verbatim>\<open>try\<close>/\<^verbatim>\<open>catch\<close>. The pipeline is
  the parameter \<open>pipeline\<close>.
\<close>

definition runDiscoveryCycle ::
  "('a agentController_scheme \<Rightarrow> 'a agentController_scheme) \<Rightarrow> nat \<Rightarrow>
   'a agentController_scheme \<Rightarrow> 'a agentController_scheme" where
  "runDiscoveryCycle pipeline now c =
     (if \<not> isRunning c then c
      else pipeline (c\<lparr>currentCycle := currentCycle c + 1, lastActivity := now\<rparr>))"

definition start ::
  "('a agentController_scheme \<Rightarrow> 'a agentController_scheme) \<Rightarrow> nat \<Rightarrow> nat \<Rightarrow> nat \<Rightarrow>
   'a agentController_scheme \<Rightarrow> 'a agentController_scheme \<times> console_line list" where
  "start pipeline timer now cycleNow c =
     (if isRunning c then (c, [AlreadyRunning])
      else (let c1 = c\<lparr>isRunning := True, lastActivity := now, cycleInterval := Some timer\<rparr>
            in (runDiscoveryCycle pipeline cycleNow c1, [StartingEngine, SystemRunning])))"

definition stop :: "'a agentController_scheme \<Rightarrow> 'a agentController_scheme \<times> console_line list" where
  "stop c =
     (if \<not> isRunning c then (c, [AlreadyStopped])
      else (let c1 = c\<lparr>isRunning := False\<rparr>;
                c2 = (case cycleInterval c1 of None \<Rightarrow> c1 | Some h \<Rightarrow> c1\<lparr>cycleInterval := None\<rparr>)
            in (c2, [StoppingSystem, SystemStopped])))"

definition newAgentController :: agentController where
  "newAgentController = \<lparr>isRunning = False, currentCycle = 0, cycleInterval = None, lastActivity = 0\<rparr>"

section \<open>Chain Builder (ChainBuilderAgent)\<close>


text \<open>
  The parsed answer of the external capability to a connection prompt.
  \<open>c_hasConnection\<close> is \<open>Some True\<close> exactly for the JSON value \<^verbatim>\<open>true\<close>, the only
  value that \<^verbatim>\<open>=== true\<close> accepts. The strength is compared with 6 and clamped only
  where it has passed: a value passes \<^verbatim>\<open>connectionStrength >= 6\<close> exactly when it
  reads as a number of at least 6, is truthy then, and is clamped as that number. The
  field is the number that the value reads as, and \<open>None\<close> for a value that reads as
  \<^verbatim>\<open>NaN\<close>. The type and the explanation are any values, copied or replaced by a
  default.
\<close>














section \<open>Example states and inputs\<close>

text \<open>
  Concrete stores, queues and answers of the external capability, on which the theorems
  below are instantiated. \<open>twoDiscoveries\<close> is the store after two specialists have each
  created a discovery with the same finding.
\<close>

definition exampleSources :: "source list" where
  "exampleSources =
     [\<lparr>url = ''https://arxiv.org/abs/1'', title = ''Quantum sensing study'',
       keyInsight = ''Sensors reach single-neuron resolution.'', credibility = 9\<rparr>,
      \<lparr>url = ''https://example.org/2'', title = ''Neural imaging'',
       keyInsight = ''Imaging needs new sensors.'', credibility = 7\<rparr>]"

definition acceptResponse :: "number \<Rightarrow> validation agent_response" where
  "acceptResponse n = Parsed \<lparr>v_noveltyScore = JNumber n, v_validationReason = JString ''ok'' NaN,
      v_comparisonInsights = JObject (Num 0), v_recommendation = Some ''accept''\<rparr>"

text \<open>
  An answer whose score is the string \<^verbatim>\<open>"high"\<close>, which the runtime reads as \<^verbatim>\<open>NaN\<close>.
\<close>

definition highScoreResponse :: "validation agent_response" where
  "highScoreResponse = Parsed \<lparr>v_noveltyScore = JString ''high'' NaN,
      v_validationReason = JString ''Strong synthesis'' NaN,
      v_comparisonInsights = JObject (Num 0),
      v_recommendation = Some ''accept''\<rparr>"

definition reviewResponse :: "number \<Rightarrow> validation agent_response" where
  "reviewResponse n = Parsed \<lparr>v_noveltyScore = JNumber n, v_validationReason = JString ''unsure'' NaN,
      v_comparisonInsights = JObject (Num 0), v_recommendation = Some ''needs_review''\<rparr>"

definition twoDiscoveries :: "discoveryManager \<times> discovery \<times> discovery" where
  "twoDiscoveries =
     (let (m1, d1) = createDiscovery newDiscoveryManager ''Quantum sensors detect neural activity''
                       ''first'' exampleSources [''Discovery Specialist (Technology)''] [] None
                       ''d1'' ''t1'' 0;
          (m2, d2) = createDiscovery m1 ''Quantum sensors detect neural activity''
                       ''second'' exampleSources [''Discovery Specialist (Science)''] [] None
                       ''d2'' ''t2'' 1
      in (m2, d1, d2))"

definition firstDiscovery :: discovery where
  "firstDiscovery = fst (snd twoDiscoveries)"

definition secondDiscovery :: discovery where
  "secondDiscovery = snd (snd twoDiscoveries)"

definition exampleValidator :: noveltyValidator where
  "exampleValidator = newNoveltyValidator (fst twoDiscoveries)"

definition afterTwoValidations :: noveltyValidator where
  "afterTwoValidations =
     (let (m, d1, d2) = twoDiscoveries;
          s1 = fst (process (newNoveltyValidator m) d1 (acceptResponse 8))
      in fst (process s1 d2 (reviewResponse 8)))"


definition pendingTopic :: "string \<Rightarrow> string \<Rightarrow> number \<Rightarrow> researchTopic" where
  "pendingTopic i txt p =
     \<lparr>t_id = i, topic = txt, priority = p, assignedTo = None, t_status = TopicPending,
      parentDiscoveryId = None\<rparr>"

definition twentyTopics :: "researchTopic list" where
  "twentyTopics =
     map (\<lambda>n. pendingTopic (''generated-1-'' @ [char_of (97 + n)]) ''Follow-up topic'' 8) [0..<20]"

definition fallbackQueue :: "researchTopic list" where
  "fallbackQueue = addFallbackTopics []"

definition sortedFallbackQueue :: "researchTopic list" where
  "sortedFallbackQueue = updateResearchQueue fallbackQueue []"




definition runningController :: agentController where
  "runningController = fst (start (\<lambda>c. c) 1 100 100 newAgentController)"





section \<open>Properties of the store\<close>

lemmas example_store_defs =
  twoDiscoveries_def firstDiscovery_def secondDiscovery_def exampleValidator_def
  createDiscovery_def createNewThread_def addDiscoveryToThread_def newDiscoveryManager_def
  newNoveltyValidator_def exampleSources_def Let_def

lemma map_of_mapSet: "map_of (mapSet k v al) = (map_of al)(k \<mapsto> v)"
  by (induction al) (auto simp: fun_eq_iff)

lemma set_mapSet: "set (mapSet k v al) \<subseteq> insert (k, v) (set al)"
  by (induction al) (auto split: if_splits)

text \<open>
  C10. \<^verbatim>\<open>updateDiscoveryStatus\<close> with an id that is not in the store is a silent no-op:
  the store it leaves, discoveries and threads, is the store it was given. The function
  returns \<^verbatim>\<open>void\<close> and has no \<^verbatim>\<open>throw\<close>, so no error and no not-found condition
  reaches the caller.
\<close>

theorem updateDiscoveryStatus_unknown_id_noop:
  "map_of (discoveries m) discoveryId = None \<Longrightarrow>
   updateDiscoveryStatus m discoveryId status score = m"
  by (simp add: updateDiscoveryStatus_def)

text \<open>An instance: the store of \<open>twoDiscoveries\<close> has no discovery \<^verbatim>\<open>d9\<close>.\<close>

theorem updateDiscoveryStatus_unknown_id_noop_witness:
  "map_of (discoveries (fst twoDiscoveries)) ''d9'' = None
   \<and> updateDiscoveryStatus (fst twoDiscoveries) ''d9'' Rejected (Some (Num 3)) = fst twoDiscoveries"
proof -
  have absent: "map_of (discoveries (fst twoDiscoveries)) ''d9'' = None"
    by (simp add: example_store_defs)
  show ?thesis
    using absent updateDiscoveryStatus_unknown_id_noop [OF absent, of Rejected "Some (Num 3)"] by simp
qed

lemma updateDiscoveryStatus_held:
  "map_of (discoveries m) i = Some d0 \<Longrightarrow>
   map_of (discoveries (updateDiscoveryStatus m i st (Some n))) i
     = Some (d0\<lparr>d_status := st, noveltyScore := n\<rparr>)"
  by (simp add: updateDiscoveryStatus_def map_of_mapSet)

section \<open>Properties of the Novelty Validator\<close>

subsection \<open>The assessment\<close>

lemma toNumber_nonzero_truthy: "toNumber x = Num n \<Longrightarrow> n \<noteq> 0 \<Longrightarrow> truthy x"
  by (cases x) (auto split: if_splits)

lemma clamp_Num: "mathMin 10 (mathMax 1 (Num n)) = Num (min 10 (max 1 n))"
  by (simp add: mathMin_def mathMax_def)

lemma geJS_iff: "geJS x k \<longleftrightarrow> (\<exists>n. x = Num n \<and> k \<le> n)"
  by (cases x) (simp_all add: geJS_def)

lemma ltJS_iff: "ltJS x k \<longleftrightarrow> (\<exists>n. x = Num n \<and> n < k)"
  by (cases x) (simp_all add: ltJS_def)

lemma assessNovelty_accept_iff:
  "a_recommendation (assessNovelty d resp) = Accept \<longleftrightarrow>
     (\<exists>v n. resp = Parsed v \<and> v_recommendation v = Some ''accept'' \<and>
            toNumber (v_noveltyScore v) = Num n \<and> 7 \<le> n)"
  by (cases resp) (auto simp: assessNovelty_def geJS_iff)

lemma assessNovelty_reject_otherwise:
  "a_recommendation (assessNovelty d resp) \<noteq> Accept \<Longrightarrow>
   a_recommendation (assessNovelty d resp) = Reject"
  by (cases resp) (auto simp: assessNovelty_def split: if_splits)

text \<open>
  Where the score, or the default 5 in place of a falsy score, reads as a number, the
  assessment carries that number clamped: 1 below 1, 10 above 10, the number itself in
  between. Where it does not, the assessment carries \<^verbatim>\<open>NaN\<close>.
\<close>

lemma assessNovelty_score:
  "a_noveltyScore (assessNovelty d (Parsed v)) =
     (case toNumber (orDefault (v_noveltyScore v) 5) of
        Num n \<Rightarrow> Num (if n < 1 then 1 else if 10 < n then 10 else n)
      | NaN \<Rightarrow> NaN)"
  by (auto simp: assessNovelty_def mathMin_def mathMax_def split: jsnumber.splits)

lemma assessNovelty_accept_score:
  assumes "a_recommendation (assessNovelty d resp) = Accept"
  shows "\<exists>n. a_noveltyScore (assessNovelty d resp) = Num n \<and> 7 \<le> n \<and> n \<le> 10"
proof -
  from assms obtain v n where v: "resp = Parsed v" "toNumber (v_noveltyScore v) = Num n" "7 \<le> n"
    using assessNovelty_accept_iff [of d resp] by blast
  then have "truthy (v_noveltyScore v)"
    using toNumber_nonzero_truthy [of "v_noveltyScore v" n] by simp
  then have "a_noveltyScore (assessNovelty d resp) = Num (min 10 (max 1 n))"
    using v by (simp add: assessNovelty_def orDefault_def clamp_Num)
  then show ?thesis
    using v(3) by simp
qed

lemma assessNovelty_failure:
  "resp = CallFailed \<or> resp = ParseFailed \<Longrightarrow>
   a_recommendation (assessNovelty d resp) = Reject \<and> a_noveltyScore (assessNovelty d resp) = Num 3"
  by (auto simp: assessNovelty_def)

subsection \<open>The knowledge base\<close>

lemma extractTopics_nonempty: "extractTopics fnd \<noteq> []"
  by (auto simp: extractTopics_def Let_def)

lemma kbGet_mapSet: "kbGet (mapSet t xs kb) t' = (if t' = t then xs else kbGet kb t')"
  by (simp add: kbGet_def map_of_mapSet)

lemma addInsight_contains: "fnd \<in> set (kbGet (addInsight fnd t kb) t)"
proof -
  have tl_keeps: "fnd \<in> set (tl (xs @ [fnd]))" if "length (xs @ [fnd]) > 10" for xs :: "string list"
    using that by (cases xs) auto
  show ?thesis
    by (auto simp: addInsight_def Let_def kbGet_mapSet tl_keeps)
qed

lemma addInsight_other: "t' \<noteq> t \<Longrightarrow> kbGet (addInsight fnd t kb) t' = kbGet kb t'"
  by (auto simp: addInsight_def Let_def kbGet_mapSet)

lemma addInsight_keeps: "fnd \<in> set (kbGet kb t') \<Longrightarrow> fnd \<in> set (kbGet (addInsight fnd t kb) t')"
  by (cases "t' = t") (simp_all add: addInsight_contains addInsight_other)

lemma fold_addInsight_keeps:
  "fnd \<in> set (kbGet kb t) \<Longrightarrow> fnd \<in> set (kbGet (fold (addInsight fnd) ts kb) t)"
  by (induction ts arbitrary: kb) (simp_all add: addInsight_keeps)

lemma fold_addInsight_contains:
  "t \<in> set ts \<Longrightarrow> fnd \<in> set (kbGet (fold (addInsight fnd) ts kb) t)"
proof (induction ts arbitrary: kb)
  case Nil
  then show ?case by simp
next
  case (Cons a ts)
  show ?case
  proof (cases "t = a")
    case True
    then show ?thesis by (simp add: fold_addInsight_keeps addInsight_contains)
  next
    case False
    with Cons show ?thesis by simp
  qed
qed

lemma updateKnowledgeBase_contains:
  "t \<in> set (extractTopics (finding d)) \<Longrightarrow> finding d \<in> set (kbGet (updateKnowledgeBase kb d) t)"
  by (simp add: updateKnowledgeBase_def fold_addInsight_contains)

text \<open>
  The list of a topic holds at most 10 findings: a new finding pushes the oldest one out of
  a full list. A finding is therefore sure to be listed only until ten later findings
  have been accepted under the same tag.
\<close>

lemma addInsight_evicts_oldest:
  assumes full: "kbGet kb t = oldest # others" "length others = 9"
    and fresh: "fnd \<notin> set (oldest # others)"
  shows "kbGet (addInsight fnd t kb) t = others @ [fnd]"
proof -
  have "map_of kb t = Some (oldest # others)"
    using full(1) by (simp add: kbGet_def split: option.splits)
  then show ?thesis
    using full fresh by (simp add: addInsight_def Let_def kbGet_mapSet)
qed

subsection \<open>Validation\<close>

lemma process_manager:
  "nv_manager (fst (process s d resp)) =
     updateDiscoveryStatus (nv_manager s) (d_id d)
       (if a_recommendation (assessNovelty d resp) = Accept then Validated else Rejected)
       (Some (a_noveltyScore (assessNovelty d resp)))"
  by (simp add: process_def Let_def)

lemma process_knowledgeBase:
  "knowledgeBase (fst (process s d resp)) =
     (if a_recommendation (assessNovelty d resp) = Accept
      then updateKnowledgeBase (knowledgeBase s) d else knowledgeBase s)"
  by (simp add: process_def Let_def)

lemma exampleTopics:
  "extractTopics ''Quantum sensors detect neural activity'' = [''quantum'', ''neural'']"
  by code_simp

lemma firstDiscovery_held:
  "map_of (discoveries (nv_manager exampleValidator)) (d_id firstDiscovery) = Some firstDiscovery"
  by (simp add: example_store_defs)

lemma firstDiscovery_fields:
  "d_id firstDiscovery = ''d1''"
  "finding firstDiscovery = ''Quantum sensors detect neural activity''"
  by (simp_all add: example_store_defs)


text \<open>
  C2. The assessment recommends \<^verbatim>\<open>accept\<close> exactly when the answer parses, its
  recommendation is \<^verbatim>\<open>accept\<close> and its score reads as a number of at least 7, and
  \<^verbatim>\<open>reject\<close> in every other case (\<open>assessNovelty_accept_iff\<close>,
  \<open>assessNovelty_reject_otherwise\<close>); and a score that reads as a number is clamped into
  the range 1 to 10 (\<open>assessNovelty_score\<close>). But the code does not clamp every score: for
  an answer whose score is the string \<^verbatim>\<open>"high"\<close>,
  \<^verbatim>\<open>Math.min(10, Math.max(1, "high" || 5))\<close> is \<^verbatim>\<open>NaN\<close>. The assessment then carries
  \<^verbatim>\<open>NaN\<close>, outside the range, and validation writes it to the store as the discovery's
  novelty score.
\<close>

theorem assessNovelty_non_numeric_score:
  "a_noveltyScore (assessNovelty firstDiscovery highScoreResponse) = NaN
   \<and> a_recommendation (assessNovelty firstDiscovery highScoreResponse) = Reject
   \<and> map_option noveltyScore
        (getDiscovery (nv_manager (fst (process exampleValidator firstDiscovery highScoreResponse)))
           ''d1'') = Some NaN"
proof -
  have score: "a_noveltyScore (assessNovelty firstDiscovery highScoreResponse) = NaN"
    by (simp add: assessNovelty_def highScoreResponse_def orDefault_def mathMin_def mathMax_def)
  have rej: "a_recommendation (assessNovelty firstDiscovery highScoreResponse) = Reject"
    by (simp add: assessNovelty_def highScoreResponse_def geJS_def)
  have "map_of (discoveries (nv_manager (fst (process exampleValidator firstDiscovery
                                               highScoreResponse)))) (d_id firstDiscovery)
          = Some (firstDiscovery\<lparr>d_status := Rejected, noveltyScore := NaN\<rparr>)"
    using firstDiscovery_held score rej
    by (simp add: process_manager updateDiscoveryStatus_held)
  then show ?thesis
    using score rej by (simp add: getDiscovery_def firstDiscovery_fields)
qed

text \<open>
  C3. For a discovery held by the store: when the external call or the parsing of its
  answer fails, validation sets the discovery's state to \<^verbatim>\<open>rejected\<close> with the default
  novelty score 3; and whatever the answer, the discovery is not in state \<^verbatim>\<open>pending\<close>
  once validation has completed.
\<close>

theorem process_failure_rejects:
  assumes held: "map_of (discoveries (nv_manager s)) (d_id d) = Some d0"
  shows "(\<exists>d'. map_of (discoveries (nv_manager (fst (process s d resp)))) (d_id d) = Some d'
              \<and> d_status d' \<noteq> Pending)
       \<and> (resp = CallFailed \<or> resp = ParseFailed \<longrightarrow>
            (\<exists>d'. map_of (discoveries (nv_manager (fst (process s d resp)))) (d_id d) = Some d'
               \<and> d_status d' = Rejected \<and> noveltyScore d' = Num 3))"
  using held assessNovelty_failure [of resp d]
  by (auto simp: process_manager updateDiscoveryStatus_held)

text \<open>An instance: the first discovery of \<open>twoDiscoveries\<close>, with a failed call.\<close>

theorem process_failure_rejects_witness:
  "map_of (discoveries (nv_manager exampleValidator)) (d_id firstDiscovery) = Some firstDiscovery
   \<and> (\<exists>d'. map_of (discoveries (nv_manager (fst (process exampleValidator firstDiscovery CallFailed))))
              ''d1'' = Some d'
            \<and> d_status d' = Rejected \<and> noveltyScore d' = Num 3)"
  using firstDiscovery_held
    process_failure_rejects [OF firstDiscovery_held, of CallFailed]
  by (simp add: firstDiscovery_fields)

subsection \<open>State, score and knowledge base\<close>

lemma scoreWithin_iff: "scoreWithin x lo hi \<longleftrightarrow> (\<exists>n. x = Num n \<and> lo \<le> n \<and> n \<le> hi)"
  by (cases x) (simp_all add: scoreWithin_def)

lemma scoresOk_mapSet:
  "list_all (\<lambda>(i, d). d_status d = Validated \<longrightarrow> scoreWithin (noveltyScore d) 7 10) al \<Longrightarrow>
   (d_status d = Validated \<longrightarrow> scoreWithin (noveltyScore d) 7 10) \<Longrightarrow>
   list_all (\<lambda>(i, d). d_status d = Validated \<longrightarrow> scoreWithin (noveltyScore d) 7 10)
     (mapSet k d al)"
  using set_mapSet [of k d al]
  by (auto simp: list_all_iff)

lemma createDiscovery_discoveries:
  "discoveries (fst (createDiscovery m fnd expl srcs by bOn tid freshId freshThreadId now))
     = mapSet freshId (snd (createDiscovery m fnd expl srcs by bOn tid freshId freshThreadId now))
         (discoveries m)"
  by (simp add: createDiscovery_def Let_def addDiscoveryToThread_def createNewThread_def
        split: option.splits)

lemma createDiscovery_pending:
  "d_status (snd (createDiscovery m fnd expl srcs by bOn tid freshId freshThreadId now)) = Pending"
  by (simp add: createDiscovery_def Let_def split: option.splits)

lemma createDiscovery_scoresOk:
  "validatedScoresOk m \<Longrightarrow>
   validatedScoresOk (fst (createDiscovery m fnd expl srcs by bOn tid freshId freshThreadId now))"
  using scoresOk_mapSet [of "discoveries m"
      "snd (createDiscovery m fnd expl srcs by bOn tid freshId freshThreadId now)" freshId]
  by (simp add: validatedScoresOk_def createDiscovery_discoveries createDiscovery_pending)

lemma updateDiscoveryStatus_scoresOk:
  "validatedScoresOk m \<Longrightarrow> (st = Validated \<longrightarrow> scoreWithin x 7 10) \<Longrightarrow>
   validatedScoresOk (updateDiscoveryStatus m i st (Some x))"
  using scoresOk_mapSet [of "discoveries m" _ i]
  by (auto simp: updateDiscoveryStatus_def validatedScoresOk_def split: option.splits)

lemma process_scoresOk:
  "validatedScoresOk (nv_manager s) \<Longrightarrow> validatedScoresOk (nv_manager (fst (process s d resp)))"
  using assessNovelty_accept_score [of d resp]
  by (simp add: process_manager updateDiscoveryStatus_scoresOk scoreWithin_iff)

lemma applyOp_scoresOk:
  "validatedScoresOk (nv_manager s) \<Longrightarrow> validatedScoresOk (nv_manager (applyOp s op))"
  by (cases op) (auto simp: createDiscovery_scoresOk process_scoresOk split: option.splits)

lemma runOps_scoresOk:
  "validatedScoresOk (nv_manager s) \<Longrightarrow> validatedScoresOk (nv_manager (runOps s ops))"
  by (induction s ops rule: runOps.induct) (simp_all add: applyOp_scoresOk)

text \<open>
  C1, as the code has it. After every history of the store, each validated discovery has a
  novelty score that is a number between 7 and 10. When the validator processes a
  discovery held by the store, the state of that discovery becomes \<^verbatim>\<open>validated\<close> exactly
  when the answer's recommendation is \<^verbatim>\<open>accept\<close> and its score reads as a number of at
  least 7; the stored score is then a number between 7 and 10 and, right after the call,
  the knowledge base lists the finding under every topic tag extracted from it, of which
  there is at least one. Otherwise the state becomes \<^verbatim>\<open>rejected\<close> and the knowledge base
  is left as it was.
\<close>

theorem process_validated_iff_accepted:
  "(\<forall>(i, d') \<in> set (discoveries (nv_manager
                       (runOps (newNoveltyValidator newDiscoveryManager) ops))).
      d_status d' = Validated \<longrightarrow> (\<exists>n. noveltyScore d' = Num n \<and> 7 \<le> n \<and> n \<le> 10))
   \<and> (map_of (discoveries (nv_manager s)) (d_id d) = Some d \<longrightarrow>
       (\<exists>d'. map_of (discoveries (nv_manager (fst (process s d resp)))) (d_id d) = Some d'
          \<and> (d_status d' = Validated \<longleftrightarrow>
               (\<exists>v n. resp = Parsed v \<and> v_recommendation v = Some ''accept'' \<and>
                      toNumber (v_noveltyScore v) = Num n \<and> 7 \<le> n))
          \<and> (d_status d' = Validated \<longrightarrow>
               (\<exists>n. noveltyScore d' = Num n \<and> 7 \<le> n \<and> n \<le> 10)
               \<and> extractTopics (finding d') \<noteq> []
               \<and> (\<forall>t \<in> set (extractTopics (finding d')).
                     finding d' \<in> set (kbGet (knowledgeBase (fst (process s d resp))) t)))
          \<and> (d_status d' \<noteq> Validated \<longrightarrow>
               d_status d' = Rejected
               \<and> knowledgeBase (fst (process s d resp)) = knowledgeBase s)))"
proof (intro conjI impI)
  have "validatedScoresOk (nv_manager (newNoveltyValidator newDiscoveryManager))"
    by (simp add: validatedScoresOk_def newNoveltyValidator_def newDiscoveryManager_def)
  then have "validatedScoresOk (nv_manager (runOps (newNoveltyValidator newDiscoveryManager) ops))"
    by (rule runOps_scoresOk)
  then show "\<forall>(i, d') \<in> set (discoveries (nv_manager
                       (runOps (newNoveltyValidator newDiscoveryManager) ops))).
      d_status d' = Validated \<longrightarrow> (\<exists>n. noveltyScore d' = Num n \<and> 7 \<le> n \<and> n \<le> 10)"
    by (simp add: validatedScoresOk_def list_all_iff scoreWithin_iff)
next
  assume held: "map_of (discoveries (nv_manager s)) (d_id d) = Some d"
  show "\<exists>d'. map_of (discoveries (nv_manager (fst (process s d resp)))) (d_id d) = Some d'
          \<and> (d_status d' = Validated \<longleftrightarrow>
               (\<exists>v n. resp = Parsed v \<and> v_recommendation v = Some ''accept'' \<and>
                      toNumber (v_noveltyScore v) = Num n \<and> 7 \<le> n))
          \<and> (d_status d' = Validated \<longrightarrow>
               (\<exists>n. noveltyScore d' = Num n \<and> 7 \<le> n \<and> n \<le> 10)
               \<and> extractTopics (finding d') \<noteq> []
               \<and> (\<forall>t \<in> set (extractTopics (finding d')).
                     finding d' \<in> set (kbGet (knowledgeBase (fst (process s d resp))) t)))
          \<and> (d_status d' \<noteq> Validated \<longrightarrow>
               d_status d' = Rejected
               \<and> knowledgeBase (fst (process s d resp)) = knowledgeBase s)"
  proof (cases "a_recommendation (assessNovelty d resp) = Accept")
    case True
    let ?d' = "d\<lparr>d_status := Validated, noveltyScore := a_noveltyScore (assessNovelty d resp)\<rparr>"
    have look: "map_of (discoveries (nv_manager (fst (process s d resp)))) (d_id d) = Some ?d'"
      using held True by (simp add: process_manager updateDiscoveryStatus_held)
    have kb: "\<forall>t \<in> set (extractTopics (finding d)).
                finding d \<in> set (kbGet (knowledgeBase (fst (process s d resp))) t)"
      using True by (simp add: process_knowledgeBase updateKnowledgeBase_contains)
    have acc: "\<exists>v n. resp = Parsed v \<and> v_recommendation v = Some ''accept'' \<and>
                      toNumber (v_noveltyScore v) = Num n \<and> 7 \<le> n"
      using True assessNovelty_accept_iff [of d resp] by blast
    show ?thesis
      using look kb acc assessNovelty_accept_score [OF True] extractTopics_nonempty [of "finding d"]
      by simp
  next
    case False
    let ?d' = "d\<lparr>d_status := Rejected, noveltyScore := a_noveltyScore (assessNovelty d resp)\<rparr>"
    have look: "map_of (discoveries (nv_manager (fst (process s d resp)))) (d_id d) = Some ?d'"
      using held False by (simp add: process_manager updateDiscoveryStatus_held)
    have nacc: "\<not> (\<exists>v n. resp = Parsed v \<and> v_recommendation v = Some ''accept'' \<and>
                           toNumber (v_noveltyScore v) = Num n \<and> 7 \<le> n)"
      using False assessNovelty_accept_iff [of d resp] by blast
    have kb: "knowledgeBase (fst (process s d resp)) = knowledgeBase s"
      using False by (simp add: process_knowledgeBase)
    show ?thesis
      using look nacc kb by simp
  qed
qed

text \<open>An instance: the first discovery of \<open>twoDiscoveries\<close>, accepted with score 8.\<close>

theorem process_validated_iff_accepted_witness:
  "map_of (discoveries (nv_manager exampleValidator)) (d_id firstDiscovery) = Some firstDiscovery
   \<and> (\<exists>d'. map_of (discoveries (nv_manager (fst (process exampleValidator firstDiscovery
                                                  (acceptResponse 8))))) ''d1'' = Some d'
            \<and> d_status d' = Validated \<and> noveltyScore d' = Num 8
            \<and> ''Quantum sensors detect neural activity''
                 \<in> set (kbGet (knowledgeBase (fst (process exampleValidator firstDiscovery
                                                     (acceptResponse 8)))) ''quantum''))"
proof -
  obtain d' where
    look: "map_of (discoveries (nv_manager (fst (process exampleValidator firstDiscovery
                                                  (acceptResponse 8))))) (d_id firstDiscovery) = Some d'"
    and iff: "d_status d' = Validated \<longleftrightarrow>
           (\<exists>v n. acceptResponse 8 = Parsed v \<and> v_recommendation v = Some ''accept'' \<and>
                  toNumber (v_noveltyScore v) = Num n \<and> 7 \<le> n)"
    and val: "d_status d' = Validated \<longrightarrow>
           (\<exists>n. noveltyScore d' = Num n \<and> 7 \<le> n \<and> n \<le> 10)
           \<and> extractTopics (finding d') \<noteq> [] \<and>
           (\<forall>t \<in> set (extractTopics (finding d')).
              finding d' \<in> set (kbGet (knowledgeBase (fst (process exampleValidator firstDiscovery
                                                             (acceptResponse 8)))) t))"
    using process_validated_iff_accepted [of "[]" exampleValidator firstDiscovery "acceptResponse 8"]
      firstDiscovery_held
    by blast
  have validated: "d_status d' = Validated"
    using iff by (simp add: acceptResponse_def)
  have d'_eq: "d' = firstDiscovery\<lparr>d_status := Validated,
                 noveltyScore := a_noveltyScore (assessNovelty firstDiscovery (acceptResponse 8))\<rparr>"
    using look firstDiscovery_held
    by (simp add: process_manager updateDiscoveryStatus_held assessNovelty_def acceptResponse_def
        geJS_def)
  then have fnd: "finding d' = ''Quantum sensors detect neural activity''"
    by (simp add: firstDiscovery_fields)
  have score: "noveltyScore d' = Num 8"
    using d'_eq
    by (simp add: assessNovelty_def acceptResponse_def orDefault_def mathMin_def mathMax_def)
  show ?thesis
    using firstDiscovery_held look validated val fnd score
    by (simp add: firstDiscovery_fields exampleTopics)
qed

text \<open>
  C1 as stated fails from right to left. Two specialists create discoveries with the same
  finding; the first is accepted with score 8, the second gets score 8 with the verdict
  \<^verbatim>\<open>needs_review\<close> and is rejected. The second discovery then has score 8, at least 7,
  and the knowledge base lists its finding under the matching tag \<^verbatim>\<open>quantum\<close>, yet its
  state is \<^verbatim>\<open>rejected\<close>.
\<close>

theorem validated_iff_counterexample:
  "map_option d_status (getDiscovery (nv_manager afterTwoValidations) ''d2'') = Some Rejected
   \<and> map_option noveltyScore (getDiscovery (nv_manager afterTwoValidations) ''d2'') = Some (Num 8)
   \<and> map_option finding (getDiscovery (nv_manager afterTwoValidations) ''d2'')
       = Some ''Quantum sensors detect neural activity''
   \<and> ''quantum'' \<in> set (extractTopics ''Quantum sensors detect neural activity'')
   \<and> ''Quantum sensors detect neural activity''
       \<in> set (kbGet (knowledgeBase afterTwoValidations) ''quantum'')"
  by (simp add: afterTwoValidations_def twoDiscoveries_def createDiscovery_def createNewThread_def
      addDiscoveryToThread_def newDiscoveryManager_def Let_def process_def newNoveltyValidator_def
      assessNovelty_def acceptResponse_def reviewResponse_def updateDiscoveryStatus_def geJS_def
      orDefault_def mathMin_def mathMax_def orElse_def getDiscovery_def updateKnowledgeBase_def
      exampleTopics addInsight_def kbGet_def)

section \<open>Properties of the topic queue\<close>

lemma sortedDesc_sort_key: "sortedDesc (sort_key (\<lambda>t. - priority t) xs)"
proof -
  have "sorted (map (\<lambda>t. - priority t) (sort_key (\<lambda>t. - priority t) xs))"
    by (rule sorted_sort_key)
  then show ?thesis
    by (simp add: sortedDesc_def sorted_map)
qed

lemma sortedDesc_take: "sortedDesc xs \<Longrightarrow> sortedDesc (take n xs)"
  by (simp add: sortedDesc_def sorted_wrt_take)

lemma sortedDesc_nth: "sortedDesc q \<Longrightarrow> i \<le> j \<Longrightarrow> j < length q \<Longrightarrow> priority (q ! j) \<le> priority (q ! i)"
  by (cases "i = j") (auto simp: sortedDesc_def sorted_wrt_iff_nth_less)

lemma updateResearchQueue_bounded: "length (updateResearchQueue q new) \<le> 20"
  by (simp add: updateResearchQueue_def Let_def)

lemma updateResearchQueue_sorted: "sortedDesc (updateResearchQueue q new)"
  by (simp add: updateResearchQueue_def Let_def sortedDesc_sort_key sortedDesc_take)

lemma twentyTopics_length: "length twentyTopics = 20"
  by (simp add: twentyTopics_def)

lemma twentyTopics_sorted: "sortedDesc twentyTopics"
  by (simp add: twentyTopics_def sortedDesc_def sorted_wrt_map pendingTopic_def sorted_wrt_iff_nth_less)

lemma twentyTopics_priorities: "\<forall>t \<in> set twentyTopics. priority t \<le> 10"
  by (simp add: twentyTopics_def pendingTopic_def)

lemma updateResearchQueue_take:
  "updateResearchQueue q new =
     take 20 (sort_key (\<lambda>t. - priority t) (filter (\<lambda>t. t_status t \<noteq> TopicCompleted) (q @ new)))"
  by (simp add: updateResearchQueue_def Let_def)

lemma updateResearchQueue_length:
  "length (updateResearchQueue q new)
     = min 20 (length (filter (\<lambda>t. t_status t \<noteq> TopicCompleted) (q @ new)))"
  by (simp add: updateResearchQueue_take min.commute)

lemma updateResearchQueue_dropped:
  "\<exists>dropped.
      mset (updateResearchQueue q new) + mset dropped
        = mset (filter (\<lambda>t. t_status t \<noteq> TopicCompleted) (q @ new))
    \<and> (\<forall>d \<in> set dropped. \<forall>r \<in> set (updateResearchQueue q new). priority d \<le> priority r)"
proof -
  let ?s = "sort_key (\<lambda>t. - priority t) (filter (\<lambda>t. t_status t \<noteq> TopicCompleted) (q @ new))"
  have "mset (take 20 ?s @ drop 20 ?s) = mset ?s"
    by (simp only: append_take_drop_id)
  then have "mset (take 20 ?s) + mset (drop 20 ?s) = mset ?s"
    by (simp only: mset_append)
  also have "mset ?s = mset (filter (\<lambda>t. t_status t \<noteq> TopicCompleted) (q @ new))"
    by (rule mset_sort)
  finally have kept: "mset (take 20 ?s) + mset (drop 20 ?s)
      = mset (filter (\<lambda>t. t_status t \<noteq> TopicCompleted) (q @ new))" .
  have "sorted_wrt (\<lambda>a b. priority b \<le> priority a) (take 20 ?s @ drop 20 ?s)"
    using sortedDesc_sort_key [of "filter (\<lambda>t. t_status t \<noteq> TopicCompleted) (q @ new)"]
    by (simp only: append_take_drop_id sortedDesc_def)
  then have below: "\<forall>d \<in> set (drop 20 ?s). \<forall>r \<in> set (take 20 ?s). priority d \<le> priority r"
    unfolding sorted_wrt_append by blast
  show ?thesis
    unfolding updateResearchQueue_take
    using kept below by blast
qed

text \<open>
  C4, as the code has it. After every \<^verbatim>\<open>updateResearchQueue\<close> (the enqueue of a batch of
  new topics) the queue is made of the topics of the old queue and of the batch that are
  not completed: it holds 20 of them, or all of them if they are fewer, sorted by
  descending priority, and every topic that was dropped has a priority no higher than
  every topic that was kept. A directed-topic insertion (\<^verbatim>\<open>processVoiceCommand\<close>) leaves
  the queue alone when the command does not match; otherwise it puts one pending topic of
  priority 10, with the requested text, in front of the unchanged queue and neither sorts
  nor truncates: the queue grows by exactly one, and is sorted by descending priority if
  it was sorted and held no priority above 10.
\<close>

theorem queue_bound_and_order:
  "length (updateResearchQueue q new) \<le> 20
   \<and> length (updateResearchQueue q new)
       = min 20 (length (filter (\<lambda>t. t_status t \<noteq> TopicCompleted) (q @ new)))
   \<and> sortedDesc (updateResearchQueue q new)
   \<and> (\<exists>dropped.
         mset (updateResearchQueue q new) + mset dropped
           = mset (filter (\<lambda>t. t_status t \<noteq> TopicCompleted) (q @ new))
       \<and> (\<forall>d \<in> set dropped. \<forall>r \<in> set (updateResearchQueue q new). priority d \<le> priority r))
   \<and> processVoiceCommand q None now = q
   \<and> processVoiceCommand q (Some userTopic) now
       = \<lparr>t_id = ''voice-'' @ now, topic = userTopic, priority = 10, assignedTo = None,
          t_status = TopicPending, parentDiscoveryId = None\<rparr> # q
   \<and> length (processVoiceCommand q (Some userTopic) now) = Suc (length q)
   \<and> (sortedDesc q \<and> (\<forall>t \<in> set q. priority t \<le> 10) \<longrightarrow>
        sortedDesc (processVoiceCommand q (Some userTopic) now))"
proof -
  have voice: "sortedDesc (processVoiceCommand q (Some userTopic) now)"
    if "sortedDesc q" "\<forall>t \<in> set q. priority t \<le> 10"
    using that by (simp add: processVoiceCommand_def sortedDesc_def)
  have front: "processVoiceCommand q (Some userTopic) now
       = \<lparr>t_id = ''voice-'' @ now, topic = userTopic, priority = 10, assignedTo = None,
          t_status = TopicPending, parentDiscoveryId = None\<rparr> # q"
    by (simp add: processVoiceCommand_def)
  have grows: "length (processVoiceCommand q (Some userTopic) now) = Suc (length q)"
    by (simp add: processVoiceCommand_def)
  have none: "processVoiceCommand q None now = q"
    by (simp add: processVoiceCommand_def)
  show ?thesis
    using voice front grows none updateResearchQueue_bounded [of q new]
      updateResearchQueue_length [of q new] updateResearchQueue_sorted [of q new]
      updateResearchQueue_dropped [of q new]
    by blast
qed

text \<open>
  An instance: a sorted queue of twenty topics of priority 8, to which the same twenty are
  pushed again, and into which a directed topic is inserted.
\<close>

theorem queue_bound_and_order_witness:
  "sortedDesc twentyTopics \<and> list_all (\<lambda>t. priority t \<le> 10) twentyTopics
   \<and> length (updateResearchQueue twentyTopics twentyTopics) = 20
   \<and> sortedDesc (updateResearchQueue twentyTopics twentyTopics)
   \<and> t_status (hd (processVoiceCommand twentyTopics (Some ''quantum sensors'') ''1700000000000''))
       = TopicPending
   \<and> priority (hd (processVoiceCommand twentyTopics (Some ''quantum sensors'') ''1700000000000''))
       = 10
   \<and> tl (processVoiceCommand twentyTopics (Some ''quantum sensors'') ''1700000000000'')
       = twentyTopics
   \<and> sortedDesc (processVoiceCommand twentyTopics (Some ''quantum sensors'') ''1700000000000'')"
proof -
  note inst = queue_bound_and_order
    [of twentyTopics twentyTopics "''1700000000000''" "''quantum sensors''"]
  have nc: "length (filter (\<lambda>t. t_status t \<noteq> TopicCompleted) (twentyTopics @ twentyTopics)) = 40"
    by (simp add: twentyTopics_def pendingTopic_def)
  from inst nc have len: "length (updateResearchQueue twentyTopics twentyTopics) = 20"
    by simp
  from inst have srt: "sortedDesc (updateResearchQueue twentyTopics twentyTopics)"
    by blast
  from inst have front:
    "processVoiceCommand twentyTopics (Some ''quantum sensors'') ''1700000000000''
       = \<lparr>t_id = ''voice-'' @ ''1700000000000'', topic = ''quantum sensors'', priority = 10,
          assignedTo = None, t_status = TopicPending, parentDiscoveryId = None\<rparr> # twentyTopics"
    by blast
  from inst twentyTopics_sorted twentyTopics_priorities
  have voice: "sortedDesc (processVoiceCommand twentyTopics (Some ''quantum sensors'')
      ''1700000000000'')"
    by blast
  have hd_tl: "t_status (hd (processVoiceCommand twentyTopics (Some ''quantum sensors'')
        ''1700000000000'')) = TopicPending
    \<and> priority (hd (processVoiceCommand twentyTopics (Some ''quantum sensors'')
        ''1700000000000'')) = 10
    \<and> tl (processVoiceCommand twentyTopics (Some ''quantum sensors'') ''1700000000000'')
        = twentyTopics"
    by (simp only: front list.sel researchTopic.simps simp_thms)
  show ?thesis
    using len srt voice hd_tl twentyTopics_sorted twentyTopics_priorities
    by (simp only: list_all_iff simp_thms)
qed

text \<open>
  C4 as stated fails for the directed-topic insertion: on a sorted queue of 20 topics it
  leaves 21, one more than the capacity.
\<close>

theorem queue_capacity_counterexample:
  "length twentyTopics = 20 \<and> sortedDesc twentyTopics
   \<and> length (processVoiceCommand twentyTopics (Some ''quantum sensors'') ''1700000000000'') = 21"
  by (simp add: twentyTopics_length twentyTopics_sorted processVoiceCommand_def)

lemma first_pending_index:
  "filter (\<lambda>t. t_status t = TopicPending) q \<noteq> [] \<Longrightarrow>
   \<exists>i < length q. t_status (q ! i) = TopicPending
       \<and> (\<forall>j < i. t_status (q ! j) \<noteq> TopicPending)
       \<and> hd (filter (\<lambda>t. t_status t = TopicPending) q) = q ! i
       \<and> markFirstPending q = q[i := (q ! i)\<lparr>t_status := TopicActive\<rparr>]"
proof (induction q)
  case Nil
  then show ?case by simp
next
  case (Cons t ts)
  show ?case
  proof (cases "t_status t = TopicPending")
    case True
    then show ?thesis by (intro exI [of _ 0]) simp
  next
    case False
    with Cons.prems have "filter (\<lambda>t. t_status t = TopicPending) ts \<noteq> []" by simp
    from Cons.IH [OF this] obtain i where i: "i < length ts" "t_status (ts ! i) = TopicPending"
      "\<forall>j < i. t_status (ts ! j) \<noteq> TopicPending"
      "hd (filter (\<lambda>t. t_status t = TopicPending) ts) = ts ! i"
      "markFirstPending ts = ts[i := (ts ! i)\<lparr>t_status := TopicActive\<rparr>]"
      by blast
    have "\<forall>j < Suc i. t_status ((t # ts) ! j) \<noteq> TopicPending"
      using False i(3) by (auto simp: nth_Cons split: nat.splits)
    with i False show ?thesis by (intro exI [of _ "Suc i"]) simp
  qed
qed

lemma sortedFallbackQueue_eval:
  "sortedFallbackQueue =
     [pendingTopic ''fallback-0'' ''Quantum computing applications in biological systems'' 9,
      pendingTopic ''fallback-1'' ''AI-driven materials discovery for sustainable technology'' 8,
      pendingTopic ''fallback-3'' ''Novel applications of CRISPR beyond gene editing'' 8,
      pendingTopic ''fallback-2'' ''Intersection of blockchain and space technology'' 7,
      pendingTopic ''fallback-4'' ''Emergent properties in neural network architectures'' 7]"
  by (simp add: sortedFallbackQueue_def fallbackQueue_def addFallbackTopics_def
      updateResearchQueue_def pendingTopic_def Let_def)

lemma sortedFallbackQueue_sorted: "sortedDesc sortedFallbackQueue"
  by (simp add: sortedFallbackQueue_def updateResearchQueue_sorted)

lemma sortedFallbackQueue_pending: "\<exists>t \<in> set sortedFallbackQueue. t_status t = TopicPending"
  by (simp add: sortedFallbackQueue_eval pendingTopic_def)

lemma selectNext_none:
  "\<forall>t \<in> set q. t_status t \<noteq> TopicPending \<Longrightarrow> selectNextResearchTopic q = (None, q)"
proof -
  assume "\<forall>t \<in> set q. t_status t \<noteq> TopicPending"
  then have "filter (\<lambda>t. t_status t = TopicPending) q = []"
    by (simp add: filter_empty_conv)
  then show ?thesis
    by (simp add: selectNextResearchTopic_def)
qed

lemma selectNext_first:
  assumes some: "\<exists>t \<in> set q. t_status t = TopicPending"
  shows "\<exists>i < length q.
            t_status (q ! i) = TopicPending
          \<and> (\<forall>j < i. t_status (q ! j) \<noteq> TopicPending)
          \<and> selectNextResearchTopic q =
              (Some ((q ! i)\<lparr>t_status := TopicActive\<rparr>), q[i := (q ! i)\<lparr>t_status := TopicActive\<rparr>])
          \<and> (sortedDesc q \<longrightarrow>
               (\<forall>u \<in> set q. t_status u = TopicPending \<longrightarrow> priority u \<le> priority (q ! i)))"
proof -
  from some have ne: "filter (\<lambda>t. t_status t = TopicPending) q \<noteq> []"
    by (simp add: filter_empty_conv)
  from first_pending_index [OF ne] obtain i where i: "i < length q"
    "t_status (q ! i) = TopicPending" "\<forall>j < i. t_status (q ! j) \<noteq> TopicPending"
    "hd (filter (\<lambda>t. t_status t = TopicPending) q) = q ! i"
    "markFirstPending q = q[i := (q ! i)\<lparr>t_status := TopicActive\<rparr>]"
    by blast
  have sel: "selectNextResearchTopic q =
      (Some ((q ! i)\<lparr>t_status := TopicActive\<rparr>), q[i := (q ! i)\<lparr>t_status := TopicActive\<rparr>])"
    using ne i(4,5) by (simp add: selectNextResearchTopic_def)
  have maxp: "priority u \<le> priority (q ! i)"
    if srt: "sortedDesc q" and u: "u \<in> set q" "t_status u = TopicPending" for u
  proof -
    from u(1) obtain k where k: "k < length q" "q ! k = u"
      by (auto simp: in_set_conv_nth)
    have "i \<le> k"
    proof (rule ccontr)
      assume "\<not> i \<le> k"
      then have "k < i" by simp
      with i(3) k(2) u(2) show False by auto
    qed
    from sortedDesc_nth [OF srt this k(1)] k(2) show ?thesis by simp
  qed
  show ?thesis
    using i(1,2,3) sel maxp by blast
qed

text \<open>
  C5. Selection runs on the queue as \<^verbatim>\<open>updateResearchQueue\<close> has just left it. In that
  state, when no topic is pending it returns \<^verbatim>\<open>null\<close> and leaves the queue unchanged;
  otherwise it returns a topic that was pending and has maximal priority among all
  pending topics, returns it marked \<^verbatim>\<open>active\<close>, and marks that entry of the queue
  \<^verbatim>\<open>active\<close>, changing no other entry. On any queue at all, the function returns
  \<^verbatim>\<open>null\<close> and changes nothing when no topic is pending, and otherwise takes the first
  pending topic in queue order.
\<close>

theorem selectNext_highest_pending:
  "((\<forall>t \<in> set (updateResearchQueue q new). t_status t \<noteq> TopicPending) \<longrightarrow>
      directorProcess q new = (None, updateResearchQueue q new))
   \<and> ((\<exists>t \<in> set (updateResearchQueue q new). t_status t = TopicPending) \<longrightarrow>
        (\<exists>i < length (updateResearchQueue q new).
            t_status (updateResearchQueue q new ! i) = TopicPending
          \<and> directorProcess q new =
              (Some ((updateResearchQueue q new ! i)\<lparr>t_status := TopicActive\<rparr>),
               (updateResearchQueue q new)
                 [i := (updateResearchQueue q new ! i)\<lparr>t_status := TopicActive\<rparr>])
          \<and> (\<forall>u \<in> set (updateResearchQueue q new).
                t_status u = TopicPending \<longrightarrow>
                priority u \<le> priority (updateResearchQueue q new ! i))))
   \<and> ((\<forall>t \<in> set q'. t_status t \<noteq> TopicPending) \<longrightarrow> selectNextResearchTopic q' = (None, q'))
   \<and> ((\<exists>t \<in> set q'. t_status t = TopicPending) \<longrightarrow>
        (\<exists>i < length q'.
            t_status (q' ! i) = TopicPending
          \<and> (\<forall>j < i. t_status (q' ! j) \<noteq> TopicPending)
          \<and> selectNextResearchTopic q' =
              (Some ((q' ! i)\<lparr>t_status := TopicActive\<rparr>),
               q'[i := (q' ! i)\<lparr>t_status := TopicActive\<rparr>])))"
proof (intro conjI impI)
  assume "\<forall>t \<in> set (updateResearchQueue q new). t_status t \<noteq> TopicPending"
  then show "directorProcess q new = (None, updateResearchQueue q new)"
    by (simp add: directorProcess_def selectNext_none)
next
  assume some: "\<exists>t \<in> set (updateResearchQueue q new). t_status t = TopicPending"
  show "\<exists>i < length (updateResearchQueue q new).
            t_status (updateResearchQueue q new ! i) = TopicPending
          \<and> directorProcess q new =
              (Some ((updateResearchQueue q new ! i)\<lparr>t_status := TopicActive\<rparr>),
               (updateResearchQueue q new)
                 [i := (updateResearchQueue q new ! i)\<lparr>t_status := TopicActive\<rparr>])
          \<and> (\<forall>u \<in> set (updateResearchQueue q new).
                t_status u = TopicPending \<longrightarrow>
                priority u \<le> priority (updateResearchQueue q new ! i))"
    using selectNext_first [OF some] updateResearchQueue_sorted [of q new]
    unfolding directorProcess_def by blast
next
  assume "\<forall>t \<in> set q'. t_status t \<noteq> TopicPending"
  then show "selectNextResearchTopic q' = (None, q')"
    by (rule selectNext_none)
next
  assume some: "\<exists>t \<in> set q'. t_status t = TopicPending"
  show "\<exists>i < length q'.
            t_status (q' ! i) = TopicPending
          \<and> (\<forall>j < i. t_status (q' ! j) \<noteq> TopicPending)
          \<and> selectNextResearchTopic q' =
              (Some ((q' ! i)\<lparr>t_status := TopicActive\<rparr>),
               q'[i := (q' ! i)\<lparr>t_status := TopicActive\<rparr>])"
    using selectNext_first [OF some] by blast
qed

text \<open>
  An instance: the fallback topics, pushed with priorities 9, 8, 7, 8, 7. The director's
  \<^verbatim>\<open>process\<close> sorts them and selects the topic of priority 9.
\<close>

theorem selectNext_highest_pending_witness:
  "(\<exists>t \<in> set (updateResearchQueue fallbackQueue []). t_status t = TopicPending)
   \<and> map_option t_id (fst (directorProcess fallbackQueue [])) = Some ''fallback-0''
   \<and> map_option priority (fst (directorProcess fallbackQueue [])) = Some 9
   \<and> (\<exists>i < length (updateResearchQueue fallbackQueue []).
         directorProcess fallbackQueue [] =
           (Some ((updateResearchQueue fallbackQueue [] ! i)\<lparr>t_status := TopicActive\<rparr>),
            (updateResearchQueue fallbackQueue [])
              [i := (updateResearchQueue fallbackQueue [] ! i)\<lparr>t_status := TopicActive\<rparr>])
       \<and> (\<forall>u \<in> set (updateResearchQueue fallbackQueue []).
             t_status u = TopicPending \<longrightarrow>
             priority u \<le> priority (updateResearchQueue fallbackQueue [] ! i)))"
proof -
  have pend: "\<exists>t \<in> set (updateResearchQueue fallbackQueue []). t_status t = TopicPending"
    using sortedFallbackQueue_pending by (simp add: sortedFallbackQueue_def)
  have first: "fst (directorProcess fallbackQueue [])
      = Some ((pendingTopic ''fallback-0''
                 ''Quantum computing applications in biological systems'' 9)
                \<lparr>t_status := TopicActive\<rparr>)"
    using sortedFallbackQueue_eval
    by (simp add: directorProcess_def sortedFallbackQueue_def selectNextResearchTopic_def
        pendingTopic_def)
  have ids: "map_option t_id (fst (directorProcess fallbackQueue [])) = Some ''fallback-0''
      \<and> map_option priority (fst (directorProcess fallbackQueue [])) = Some 9"
    by (simp add: first pendingTopic_def)
  note inst = selectNext_highest_pending [of fallbackQueue "[]" "[]"]
  from inst pend
  have ex: "\<exists>i < length (updateResearchQueue fallbackQueue []).
         directorProcess fallbackQueue [] =
           (Some ((updateResearchQueue fallbackQueue [] ! i)\<lparr>t_status := TopicActive\<rparr>),
            (updateResearchQueue fallbackQueue [])
              [i := (updateResearchQueue fallbackQueue [] ! i)\<lparr>t_status := TopicActive\<rparr>])
       \<and> (\<forall>u \<in> set (updateResearchQueue fallbackQueue []).
             t_status u = TopicPending \<longrightarrow>
             priority u \<le> priority (updateResearchQueue fallbackQueue [] ! i))"
    by blast
  show ?thesis
    using pend ids ex by blast
qed

section \<open>Properties of the controller\<close>


lemma initialSpecialists_eval:
  "initialSpecialists = [technologySpecialist, scienceSpecialist, applicationsSpecialist]"
  by (simp add: initialSpecialists_def technologySpecialist_def scienceSpecialist_def
      applicationsSpecialist_def)

lemma specialists_distinct:
  "technologySpecialist \<noteq> scienceSpecialist" "technologySpecialist \<noteq> applicationsSpecialist"
  "scienceSpecialist \<noteq> applicationsSpecialist"
  by (simp_all add: technologySpecialist_def scienceSpecialist_def applicationsSpecialist_def
      newSpecialist_def)

lemma findSpecialist_initial:
  "findSpecialist initialSpecialists ''Technology'' = Some technologySpecialist"
  "findSpecialist initialSpecialists ''Science'' = Some scienceSpecialist"
  "findSpecialist initialSpecialists ''Applications'' = Some applicationsSpecialist"
  by (simp_all add: findSpecialist_def initialSpecialists_eval getSpecialization_def
      technologySpecialist_def scienceSpecialist_def applicationsSpecialist_def newSpecialist_def)



lemma selectOptimalSpecialists_cases:
  "selectOptimalSpecialists initialSpecialists l =
     (if mentionsTechnology l then
        (if mentionsScience l then [Some technologySpecialist, Some scienceSpecialist]
         else if mentionsApplications l then [Some technologySpecialist, Some applicationsSpecialist]
         else [Some technologySpecialist, Some scienceSpecialist])
      else if mentionsScience l then
        (if mentionsApplications l then [Some scienceSpecialist, Some applicationsSpecialist]
         else [Some scienceSpecialist, Some technologySpecialist])
      else if mentionsApplications l then [Some applicationsSpecialist, Some technologySpecialist]
      else [Some technologySpecialist, Some scienceSpecialist])"
  using specialists_distinct
  by (simp add: selectOptimalSpecialists_def Let_def findSpecialist_initial MAX_PARALLEL_RESEARCH_def)
     (auto simp: initialSpecialists_eval)

lemma exampleTopics_mentions:
  "\<not> mentionsTechnology ''quantum sensors''" "\<not> mentionsScience ''quantum sensors''"
  "\<not> mentionsApplications ''quantum sensors''"
  "\<not> mentionsTechnology ''crispr research''" "mentionsScience ''crispr research''"
  "\<not> mentionsApplications ''crispr research''"
  "mentionsTechnology ''software tools''" "\<not> mentionsScience ''software tools''"
  "\<not> mentionsApplications ''software tools''"
  "\<not> mentionsTechnology ''practical optics''" "\<not> mentionsScience ''practical optics''"
  "mentionsApplications ''practical optics''"
  by (simp_all add: mentionsTechnology_def mentionsScience_def mentionsApplications_def)

text \<open>
  C7. For every topic, the selection on the controller's roster has at least one and at
  most two entries (exactly two), all of them specialists of the roster and no two the
  same. When no keyword of any domain occurs in the lowered topic text, it is the first
  two entries of the roster in registration order; when the keywords of exactly one
  domain occur, it is that domain's specialist followed by the first other specialist of
  the roster, so that two are selected.
\<close>

theorem selectOptimalSpecialists_two_of_roster:
  "1 \<le> length (selectOptimalSpecialists initialSpecialists topicLower)
   \<and> length (selectOptimalSpecialists initialSpecialists topicLower) \<le> 2
   \<and> length (selectOptimalSpecialists initialSpecialists topicLower) = 2
   \<and> distinct (selectOptimalSpecialists initialSpecialists topicLower)
   \<and> set (selectOptimalSpecialists initialSpecialists topicLower) \<subseteq> Some ` set initialSpecialists
   \<and> (\<not> mentionsTechnology topicLower \<and> \<not> mentionsScience topicLower
       \<and> \<not> mentionsApplications topicLower \<longrightarrow>
        selectOptimalSpecialists initialSpecialists topicLower
          = map Some (take 2 initialSpecialists))
   \<and> (mentionsTechnology topicLower \<and> \<not> mentionsScience topicLower
       \<and> \<not> mentionsApplications topicLower \<longrightarrow>
        selectOptimalSpecialists initialSpecialists topicLower
          = [Some technologySpecialist, Some scienceSpecialist])
   \<and> (\<not> mentionsTechnology topicLower \<and> mentionsScience topicLower
       \<and> \<not> mentionsApplications topicLower \<longrightarrow>
        selectOptimalSpecialists initialSpecialists topicLower
          = [Some scienceSpecialist, Some technologySpecialist])
   \<and> (\<not> mentionsTechnology topicLower \<and> \<not> mentionsScience topicLower
       \<and> mentionsApplications topicLower \<longrightarrow>
        selectOptimalSpecialists initialSpecialists topicLower
          = [Some applicationsSpecialist, Some technologySpecialist])"
  unfolding selectOptimalSpecialists_cases
  using specialists_distinct
  by (simp add: Let_def initialSpecialists_eval)

text \<open>
  Instances: \<^verbatim>\<open>quantum sensors\<close> matches no keyword and gets the first two specialists
  of the roster; \<^verbatim>\<open>crispr research\<close>, \<^verbatim>\<open>software tools\<close> and \<^verbatim>\<open>practical optics\<close> each
  match one domain and get its specialist and one more.
\<close>

theorem selectOptimalSpecialists_two_of_roster_witness:
  "\<not> mentionsTechnology ''quantum sensors'' \<and> \<not> mentionsScience ''quantum sensors''
   \<and> \<not> mentionsApplications ''quantum sensors''
   \<and> selectOptimalSpecialists initialSpecialists ''quantum sensors''
       = [Some technologySpecialist, Some scienceSpecialist]
   \<and> mentionsScience ''crispr research''
   \<and> selectOptimalSpecialists initialSpecialists ''crispr research''
       = [Some scienceSpecialist, Some technologySpecialist]
   \<and> mentionsTechnology ''software tools''
   \<and> selectOptimalSpecialists initialSpecialists ''software tools''
       = [Some technologySpecialist, Some scienceSpecialist]
   \<and> mentionsApplications ''practical optics''
   \<and> selectOptimalSpecialists initialSpecialists ''practical optics''
       = [Some applicationsSpecialist, Some technologySpecialist]"
proof -
  have two: "map Some (take 2 initialSpecialists)
      = [Some technologySpecialist, Some scienceSpecialist]"
    by (simp add: initialSpecialists_eval)
  from selectOptimalSpecialists_two_of_roster [of "''quantum sensors''"] exampleTopics_mentions two
  have q: "selectOptimalSpecialists initialSpecialists ''quantum sensors''
      = [Some technologySpecialist, Some scienceSpecialist]"
    by metis
  from selectOptimalSpecialists_two_of_roster [of "''crispr research''"] exampleTopics_mentions
  have c: "selectOptimalSpecialists initialSpecialists ''crispr research''
      = [Some scienceSpecialist, Some technologySpecialist]"
    by blast
  from selectOptimalSpecialists_two_of_roster [of "''software tools''"] exampleTopics_mentions
  have s: "selectOptimalSpecialists initialSpecialists ''software tools''
      = [Some technologySpecialist, Some scienceSpecialist]"
    by blast
  from selectOptimalSpecialists_two_of_roster [of "''practical optics''"] exampleTopics_mentions
  have p: "selectOptimalSpecialists initialSpecialists ''practical optics''
      = [Some applicationsSpecialist, Some technologySpecialist]"
    by blast
  show ?thesis
    using q c s p exampleTopics_mentions by (simp only: simp_thms)
qed

text \<open>
  C9. \<^verbatim>\<open>start\<close> on a running system and \<^verbatim>\<open>stop\<close> on a stopped one return the
  controller as it was (running flag, cycle counter, timer and all other fields) and print
  the line that says so; they have no \<^verbatim>\<open>throw\<close>. So a second \<^verbatim>\<open>stop\<close> in a row is a
  no-op that reports "already stopped", and a second \<^verbatim>\<open>start\<close> on a system that the
  first left running is a no-op that reports "already running".
\<close>

theorem start_stop_idempotent:
  "(isRunning c \<longrightarrow> start pipeline timer now cycleNow c = (c, [AlreadyRunning]))
   \<and> (\<not> isRunning c \<longrightarrow> stop c = (c, [AlreadyStopped]))
   \<and> stop (fst (stop c)) = (fst (stop c), [AlreadyStopped])
   \<and> (isRunning (fst (start pipeline timer now cycleNow c)) \<longrightarrow>
        start pipeline timer' now' cycleNow' (fst (start pipeline timer now cycleNow c))
          = (fst (start pipeline timer now cycleNow c), [AlreadyRunning]))"
  by (auto simp: start_def stop_def Let_def split: option.splits)

text \<open>An instance: the new controller, and the controller after one \<^verbatim>\<open>start\<close>.\<close>

theorem start_stop_idempotent_witness:
  "\<not> isRunning newAgentController
   \<and> stop newAgentController = (newAgentController, [AlreadyStopped])
   \<and> isRunning runningController
   \<and> start (\<lambda>c. c) 2 200 200 runningController = (runningController, [AlreadyRunning])"
proof -
  have stopped: "\<not> isRunning newAgentController"
    by (simp add: newAgentController_def)
  have running: "isRunning runningController"
    by (simp add: runningController_def newAgentController_def start_def runDiscoveryCycle_def Let_def)
  show ?thesis
    using stopped running
      start_stop_idempotent [of newAgentController "\<lambda>c. c" 2 200 200 2 200 200]
      start_stop_idempotent [of runningController "\<lambda>c. c" 2 200 200 2 200 200]
    by simp
qed

section \<open>Properties of the Chain Builder\<close>











end
